theory Spec2Isabelle
  imports Main "HOL-Library.AList" "HOL-Library.Sublist"
begin

section \<open>Exceptions and the Prolog interface seen by triage.py\<close>

text \<open>
  Python exceptions are values. \<open>FileNotFoundError\<close> is raised by
  \<^verbatim>\<open>TriageEngine.__init__\<close>; \<open>PrologError\<close> stands for whatever pyswip raises out of a
  query or a consult. \<open>UnknownSymptomError\<close> and \<open>ConfigurationError\<close> are named by the
  specification only; triage.py defines neither. Each carries its message.
\<close>

datatype exn =
    FileNotFoundError string
  | PrologError string
  | UnknownSymptomError string
  | ConfigurationError string

fun exn_str :: "exn \<Rightarrow> string" where
  "exn_str (FileNotFoundError m) = m"
| "exn_str (PrologError m) = m"
| "exn_str (UnknownSymptomError m) = m"
| "exn_str (ConfigurationError m) = m"

text \<open>
  pyswip's \<^verbatim>\<open>Prolog()\<close> is one engine for the whole process, so the Prolog database is a
  state \<open>'db\<close> threaded through every call. triage.py talks to it through
  \<^verbatim>\<open>consult\<close> and through seven goals; each is a field here (the seventh, a
  conjunction, as its two predicates). A query either raises or
  yields the list of its solutions (one entry per solution, holding the bindings of the
  goal's variables, already converted by \<^verbatim>\<open>str\<close>), together with the database it leaves
  behind. The two predicates of the conjunctive goal of \<^verbatim>\<open>run_triage_all\<close> are read-only
  lookups with rules of an abstract type \<open>'r\<close>; the conjunction itself is written in
  triage.py and is modelled below.
\<close>

record ('db, 'r) prolog =
  consult :: "string \<Rightarrow> 'db \<Rightarrow> (exn + unit) \<times> 'db"
  q_clear_symptoms :: "'db \<Rightarrow> (exn + unit list) \<times> 'db"
  q_add_symptom :: "string \<Rightarrow> 'db \<Rightarrow> (exn + unit list) \<times> 'db"
  q_remove_symptom :: "string \<Rightarrow> 'db \<Rightarrow> (exn + unit list) \<times> 'db"
  q_current_symptoms :: "'db \<Rightarrow> (exn + string list list) \<times> 'db"
  q_available_symptom :: "'db \<Rightarrow> (exn + (string \<times> string) list) \<times> 'db"
  q_triage :: "'db \<Rightarrow> (exn + (string \<times> string list) list) \<times> 'db"
  p_fired_rules :: "'db \<Rightarrow> string \<Rightarrow> exn + 'r list list"
  p_extract_explanations :: "'db \<Rightarrow> 'r list \<Rightarrow> exn + string list list"

text \<open>
  What triage.py reads of its surroundings: the directory of the module
  (\<^verbatim>\<open>Path(__file__).parent\<close>), \<^verbatim>\<open>Path.exists\<close> and \<^verbatim>\<open>Path.resolve\<close>.
\<close>

record env =
  module_dir :: string
  path_exists :: "string \<Rightarrow> bool"
  path_resolve :: "string \<Rightarrow> string"

definition KB_PATH :: "env \<Rightarrow> string" where
  "KB_PATH ev = module_dir ev @ ''/triage_kb.pl''"

definition replace_backslash :: "string \<Rightarrow> string" where
  "replace_backslash s = map (\<lambda>c. if c = CHR 0x5C then CHR ''/'' else c) s"

section \<open>TriageEngine\<close>

text \<open>
  \<^verbatim>\<open>list(self.prolog.query(...))\<close> with the result thrown away: the solutions are
  computed and dropped, an exception of the query propagates.
\<close>

definition drain :: "(exn + 'a) \<times> 'db \<Rightarrow> (exn + unit) \<times> 'db" where
  "drain r = (case r of (Inl e, db') \<Rightarrow> (Inl e, db') | (Inr _, db') \<Rightarrow> (Inr (), db'))"

definition TriageEngine_init ::
  "('db, 'r) prolog \<Rightarrow> env \<Rightarrow> string \<Rightarrow> 'db \<Rightarrow> (exn + unit) \<times> 'db" where
  "TriageEngine_init P ev kb_path db =
     (let kb_posix = replace_backslash (path_resolve ev kb_path) in
      if \<not> path_exists ev kb_path
      then (Inl (FileNotFoundError (''Knowledge base not found: '' @ kb_path)), db)
      else (case consult P kb_posix db of
              (Inl e, db1) \<Rightarrow> (Inl e, db1)
            | (Inr _, db1) \<Rightarrow> drain (q_clear_symptoms P db1)))"

definition add_symptom :: "('db, 'r) prolog \<Rightarrow> string \<Rightarrow> 'db \<Rightarrow> (exn + unit) \<times> 'db" where
  "add_symptom P symptom db = drain (q_add_symptom P symptom db)"

definition remove_symptom :: "('db, 'r) prolog \<Rightarrow> string \<Rightarrow> 'db \<Rightarrow> (exn + unit) \<times> 'db" where
  "remove_symptom P symptom db = drain (q_remove_symptom P symptom db)"

definition clear_symptoms :: "('db, 'r) prolog \<Rightarrow> 'db \<Rightarrow> (exn + unit) \<times> 'db" where
  "clear_symptoms P db = drain (q_clear_symptoms P db)"

definition get_current_symptoms ::
  "('db, 'r) prolog \<Rightarrow> 'db \<Rightarrow> (exn + string list) \<times> 'db" where
  "get_current_symptoms P db =
     (case q_current_symptoms P db of
        (Inl e, db') \<Rightarrow> (Inl e, db')
      | (Inr results, db') \<Rightarrow>
          (case results of [] \<Rightarrow> (Inr [], db') | S # _ \<Rightarrow> (Inr S, db')))"

definition get_available_symptoms ::
  "('db, 'r) prolog \<Rightarrow> 'db \<Rightarrow> (exn + (string \<times> string) list) \<times> 'db" where
  "get_available_symptoms P db = q_available_symptom P db"

definition run_triage ::
  "('db, 'r) prolog \<Rightarrow> 'db \<Rightarrow> (exn + string \<times> string list) \<times> 'db" where
  "run_triage P db =
     (case q_triage P db of
        (Inl e, db') \<Rightarrow> (Inl e, db')
      | (Inr results, db') \<Rightarrow>
          (case results of
             [] \<Rightarrow> (Inr (''none'', [''Unable to determine triage level.'']), db')
           | (lvl, exps) # _ \<Rightarrow> (Inr (lvl, exps), db')))"

text \<open>
  The goal of \<^verbatim>\<open>run_triage_all\<close> is the conjunction
  \<^verbatim>\<open>fired_rules(L, Rules), Rules \= [], extract_explanations(Rules, Explanations)\<close>:
  for every solution \<open>Rules\<close> of the first conjunct that is not the empty list, every
  solution of the third, in that order. \<open>conj_solutions\<close> walks the solutions of the first
  conjunct.
\<close>

fun conj_solutions ::
  "('db, 'r) prolog \<Rightarrow> 'db \<Rightarrow> 'r list list \<Rightarrow> exn + ('r list \<times> string list) list" where
  "conj_solutions P db [] = Inr []"
| "conj_solutions P db (Rules # rest) =
     (if Rules = [] then conj_solutions P db rest
      else (case p_extract_explanations P db Rules of
              Inl e \<Rightarrow> Inl e
            | Inr es \<Rightarrow>
                (case conj_solutions P db rest of
                   Inl e \<Rightarrow> Inl e
                 | Inr others \<Rightarrow> Inr (map (Pair Rules) es @ others))))"

definition q_fired_explanations ::
  "('db, 'r) prolog \<Rightarrow> 'db \<Rightarrow> string \<Rightarrow> exn + ('r list \<times> string list) list" where
  "q_fired_explanations P db lvl =
     (case p_fired_rules P db lvl of
        Inl e \<Rightarrow> Inl e
      | Inr sols \<Rightarrow> conj_solutions P db sols)"

fun run_triage_all_loop ::
  "('db, 'r) prolog \<Rightarrow> 'db \<Rightarrow> string list \<Rightarrow> (string \<times> string list) list
     \<Rightarrow> exn + (string \<times> string list) list" where
  "run_triage_all_loop P db [] acc = Inr acc"
| "run_triage_all_loop P db (lvl # rest) acc =
     (case q_fired_explanations P db lvl of
        Inl e \<Rightarrow> Inl e
      | Inr results \<Rightarrow>
          (case results of
             [] \<Rightarrow> run_triage_all_loop P db rest acc
           | (_, exps) # _ \<Rightarrow> run_triage_all_loop P db rest (acc @ [(lvl, exps)])))"

definition run_triage_all ::
  "('db, 'r) prolog \<Rightarrow> 'db \<Rightarrow> exn + (string \<times> string list) list" where
  "run_triage_all P db =
     run_triage_all_loop P db [''critical'', ''urgent'', ''moderate'', ''low''] []"

section \<open>run\_triage\_for\_symptoms\<close>

text \<open>
  The returned dict has four keys; it is a record. \<open>res_all_levels\<close> is itself a dict: an
  association list in insertion order, built by the comprehension
  \<^verbatim>\<open>{lvl: exps for lvl, exps in all_levels}\<close>, where a repeated key keeps its place and
  takes the later value.
\<close>

record triage_result =
  res_level :: string
  res_explanations :: "string list"
  res_all_levels :: "(string \<times> string list) list"
  res_symptoms :: "string list"

definition dict_of_pairs :: "('k \<times> 'v) list \<Rightarrow> ('k \<times> 'v) list" where
  "dict_of_pairs ps = foldl (\<lambda>d (k, v). AList.update k v d) [] ps"

fun add_symptoms_loop ::
  "('db, 'r) prolog \<Rightarrow> string list \<Rightarrow> 'db \<Rightarrow> (exn + unit) \<times> 'db" where
  "add_symptoms_loop P [] db = (Inr (), db)"
| "add_symptoms_loop P (symptom # rest) db =
     (case add_symptom P symptom db of
        (Inl e, db') \<Rightarrow> (Inl e, db')
      | (Inr _, db') \<Rightarrow> add_symptoms_loop P rest db')"

definition run_triage_for_symptoms ::
  "('db, 'r) prolog \<Rightarrow> env \<Rightarrow> string list \<Rightarrow> 'db \<Rightarrow> (exn + triage_result) \<times> 'db" where
  "run_triage_for_symptoms P ev syms db =
     (case TriageEngine_init P ev (KB_PATH ev) db of
        (Inl e, db1) \<Rightarrow> (Inl e, db1)
      | (Inr _, db1) \<Rightarrow>
     (case add_symptoms_loop P syms db1 of
        (Inl e, db2) \<Rightarrow> (Inl e, db2)
      | (Inr _, db2) \<Rightarrow>
     (case run_triage P db2 of
        (Inl e, db3) \<Rightarrow> (Inl e, db3)
      | (Inr (lvl, exps), db3) \<Rightarrow>
          (let all_levels_dict =
                 (case run_triage_all P db3 of
                    Inl e \<Rightarrow> []
                  | Inr all_levels \<Rightarrow> dict_of_pairs all_levels)
           in (Inr \<lparr>res_level = lvl, res_explanations = exps,
                     res_all_levels = all_levels_dict, res_symptoms = syms\<rparr>, db3)))))"

section \<open>Start of run\_interactive\<close>

text \<open>
  \<^verbatim>\<open>run_interactive\<close> up to the point where its menu loop begins (lines 153 to 171 of
  triage.py). What it prints is a list of items, since the banner and the colour codes
  are not ASCII; the process either leaves through \<^verbatim>\<open>sys.exit\<close> with a status, dies of
  an exception nothing catches, or enters the menu loop with the symptoms it read.
\<close>

datatype printed =
    Banner
  | Disclaimer
  | Error_line string
  | Error_initializing string
  | Warning_no_symptoms

datatype outcome =
    Sys_exit nat
  | Uncaught exn
  | Menu_loop "(string \<times> string) list"

definition run_interactive_start ::
  "('db, 'r) prolog \<Rightarrow> env \<Rightarrow> 'db \<Rightarrow> (printed list \<times> outcome) \<times> 'db" where
  "run_interactive_start P ev db =
     (case TriageEngine_init P ev (KB_PATH ev) db of
        (Inl (FileNotFoundError m), db1) \<Rightarrow>
          (([Banner, Disclaimer, Error_line m], Sys_exit 1), db1)
      | (Inl e, db1) \<Rightarrow>
          (([Banner, Disclaimer, Error_initializing (exn_str e)], Sys_exit 1), db1)
      | (Inr _, db1) \<Rightarrow>
          (case get_available_symptoms P db1 of
             (Inl e, db2) \<Rightarrow> (([Banner, Disclaimer], Uncaught e), db2)
           | (Inr available, db2) \<Rightarrow>
               (if available = []
                then (([Banner, Disclaimer, Warning_no_symptoms], Sys_exit 1), db2)
                else (([Banner, Disclaimer], Menu_loop available), db2))))"

section \<open>The knowledge base\<close>

text \<open>
  triage\_kb.pl, the Prolog file that \<^verbatim>\<open>TriageEngine.__init__\<close> consults, is not among
  the sources. Its catalog and its predicates are modelled here from the specification
  (sections 3, 4.1 and 4.2), as one instance \<open>kb_prolog\<close> of the interface above.
\<close>

text \<open>Modelled from the spec: a Rule has a tier, a condition (symptom identifiers) and an
  explanation; the rule table of triage\_kb.pl is missing.\<close>

record rule =
  rule_level :: string
  rule_conditions :: "string list"
  rule_explanation :: string

text \<open>Modelled from the spec: the Rule Catalog, the symptom vocabulary as (identifier,
  description) pairs and the rules in source order; triage\_kb.pl is missing.\<close>

record catalog =
  cat_symptoms :: "(string \<times> string) list"
  cat_rules :: "rule list"

text \<open>Modelled from the spec: the Prolog database, the loaded catalog and the working
  symptom set in insertion order; the dynamic facts of triage\_kb.pl are missing.\<close>

record kb_db =
  db_catalog :: catalog
  db_symptoms :: "string list"

text \<open>Modelled from the spec: the four rule tiers in descending priority; the order used
  by the missing triage/2.\<close>

definition tiers :: "string list" where
  "tiers = [''critical'', ''urgent'', ''moderate'', ''low'']"

text \<open>Modelled from the spec: the load-time integrity check of section 4.1 (no duplicate
  symptom identifier, no empty condition set, no invalid tier); the loader is missing.\<close>

definition catalog_ok :: "catalog \<Rightarrow> bool" where
  "catalog_ok c \<longleftrightarrow>
     distinct (map fst (cat_symptoms c)) \<and>
     list_all (\<lambda>r. rule_conditions r \<noteq> [] \<and> rule_level r \<in> set tiers) (cat_rules c)"

text \<open>Modelled from the spec: a rule fires if and only if its full condition set is a
  subset of the working set; the missing rule bodies of triage\_kb.pl.\<close>

definition fires :: "string list \<Rightarrow> rule \<Rightarrow> bool" where
  "fires ws r \<longleftrightarrow> set (rule_conditions r) \<subseteq> set ws"

text \<open>Modelled from the spec: \<open>rules_for_tier\<close> of section 4.1, the rules of one tier in
  source order; missing with triage\_kb.pl.\<close>

definition rules_for_tier :: "catalog \<Rightarrow> string \<Rightarrow> rule list" where
  "rules_for_tier c t = filter (\<lambda>r. rule_level r = t) (cat_rules c)"

text \<open>Modelled from the spec: the rules of a tier whose condition is a subset of the
  working set; the missing predicate fired\_rules/2.\<close>

definition fired_rules :: "catalog \<Rightarrow> string list \<Rightarrow> string \<Rightarrow> rule list" where
  "fired_rules c ws t = filter (fires ws) (rules_for_tier c t)"

text \<open>Modelled from the spec: the explanations of fired rules, in catalog order; the
  missing predicate extract\_explanations/2.\<close>

definition extract_explanations :: "rule list \<Rightarrow> string list" where
  "extract_explanations rs = map rule_explanation rs"

text \<open>Modelled from the spec: the scan of \<open>evaluate\<close> (section 4.2), every tier in
  descending order that has a fired rule, with its explanations; missing with
  triage\_kb.pl.\<close>

definition breakdown :: "catalog \<Rightarrow> string list \<Rightarrow> (string \<times> string list) list" where
  "breakdown c ws =
     map (\<lambda>t. (t, extract_explanations (fired_rules c ws t)))
       (filter (\<lambda>t. fired_rules c ws t \<noteq> []) tiers)"

text \<open>Modelled from the spec: consulting the knowledge base loads the catalog the file
  holds, after the integrity check; \<open>files\<close> gives the catalog written at a path. The
  missing part is triage\_kb.pl itself.\<close>

definition kb_consult ::
  "(string \<Rightarrow> catalog option) \<Rightarrow> string \<Rightarrow> kb_db \<Rightarrow> (exn + unit) \<times> kb_db" where
  "kb_consult files path db =
     (case files path of
        None \<Rightarrow> (Inl (PrologError (''source_sink does not exist: '' @ path)), db)
      | Some c \<Rightarrow>
          (if catalog_ok c then (Inr (), db\<lparr>db_catalog := c\<rparr>)
           else (Inl (ConfigurationError (''malformed catalog: '' @ path)), db)))"

text \<open>Modelled from the spec: \<open>clear_symptoms\<close> resets the working set to empty; the
  missing predicate clear\_symptoms/0.\<close>

definition kb_clear_symptoms :: "kb_db \<Rightarrow> (exn + unit list) \<times> kb_db" where
  "kb_clear_symptoms db = (Inr [()], db\<lparr>db_symptoms := []\<rparr>)"

text \<open>Modelled from the spec: \<open>add_symptom\<close> fails with UnknownSymptomError for an
  identifier outside the vocabulary, is a silent no-op for one already present, and
  otherwise adds it; the missing predicate add\_symptom/1.\<close>

definition kb_add_symptom :: "string \<Rightarrow> kb_db \<Rightarrow> (exn + unit list) \<times> kb_db" where
  "kb_add_symptom s db =
     (if s \<notin> set (map fst (cat_symptoms (db_catalog db)))
      then (Inl (UnknownSymptomError s), db)
      else if s \<in> set (db_symptoms db) then (Inr [()], db)
      else (Inr [()], db\<lparr>db_symptoms := db_symptoms db @ [s]\<rparr>))"

text \<open>Modelled from the spec: \<open>remove_symptom\<close> takes the identifier out of the working
  set if present and is a silent no-op otherwise; the missing predicate
  remove\_symptom/1.\<close>

definition kb_remove_symptom :: "string \<Rightarrow> kb_db \<Rightarrow> (exn + unit list) \<times> kb_db" where
  "kb_remove_symptom s db = (Inr [()], db\<lparr>db_symptoms := removeAll s (db_symptoms db)\<rparr>)"

text \<open>Modelled from the spec: \<open>current_symptoms\<close> returns the working set as an
  ordered sequence; the missing predicate current\_symptoms/1.\<close>

definition kb_current_symptoms :: "kb_db \<Rightarrow> (exn + string list list) \<times> kb_db" where
  "kb_current_symptoms db = (Inr [db_symptoms db], db)"

text \<open>Modelled from the spec: \<open>all_symptoms\<close>, one solution per vocabulary entry; the
  missing facts available\_symptom/2.\<close>

definition kb_available_symptom :: "kb_db \<Rightarrow> (exn + (string \<times> string) list) \<times> kb_db" where
  "kb_available_symptom db = (Inr (cat_symptoms (db_catalog db)), db)"

text \<open>Modelled from the spec: the primary result of \<open>evaluate\<close>, the highest tier with a
  fired rule and that tier's explanations; no solution when no rule fires (the spec has
  no rule of tier none). The missing predicate triage/2.\<close>

definition kb_triage :: "kb_db \<Rightarrow> (exn + (string \<times> string list) list) \<times> kb_db" where
  "kb_triage db =
     (Inr (case breakdown (db_catalog db) (db_symptoms db) of [] \<Rightarrow> [] | x # _ \<Rightarrow> [x]), db)"

text \<open>Modelled from the spec: fired\_rules/2 as a query, one solution that binds the list of
  fired rules of the tier (possibly empty); the predicate is missing.\<close>

definition kb_fired_rules :: "kb_db \<Rightarrow> string \<Rightarrow> exn + rule list list" where
  "kb_fired_rules db t = Inr [fired_rules (db_catalog db) (db_symptoms db) t]"

text \<open>Modelled from the spec: extract\_explanations/2 as a query, one solution; the
  predicate is missing.\<close>

definition kb_extract_explanations :: "kb_db \<Rightarrow> rule list \<Rightarrow> exn + string list list" where
  "kb_extract_explanations db rs = Inr [extract_explanations rs]"

text \<open>Modelled from the spec: the knowledge base as the Prolog engine that triage.py
  queries; it stands for pyswip with the missing triage\_kb.pl loaded from \<open>files\<close>.\<close>

definition kb_prolog :: "(string \<Rightarrow> catalog option) \<Rightarrow> (kb_db, rule) prolog" where
  "kb_prolog files =
     \<lparr>consult = kb_consult files,
      q_clear_symptoms = kb_clear_symptoms,
      q_add_symptom = kb_add_symptom,
      q_remove_symptom = kb_remove_symptom,
      q_current_symptoms = kb_current_symptoms,
      q_available_symptom = kb_available_symptom,
      q_triage = kb_triage,
      p_fired_rules = kb_fired_rules,
      p_extract_explanations = kb_extract_explanations\<rparr>"

text \<open>
  The specification's own wording of the primary tier, to compare \<open>run_triage\<close> with: a
  tier is reached when some rule of it has its condition inside the working set, and the
  level is the first reached tier in the order critical, urgent, moderate, low.
\<close>

definition reached :: "catalog \<Rightarrow> string list \<Rightarrow> string \<Rightarrow> bool" where
  "reached c ws t \<longleftrightarrow>
     (\<exists>r \<in> set (cat_rules c). rule_level r = t \<and> set (rule_conditions r) \<subseteq> set ws)"

definition highest_tier :: "catalog \<Rightarrow> string list \<Rightarrow> string" where
  "highest_tier c ws =
     (if reached c ws ''critical'' then ''critical''
      else if reached c ws ''urgent'' then ''urgent''
      else if reached c ws ''moderate'' then ''moderate''
      else if reached c ws ''low'' then ''low''
      else ''none'')"

text \<open>Modelled from the spec: the symptom vocabulary, the identifiers that section 8 and
  the docstrings of test\_triage.py name, each described by its words there. The facts
  available\_symptom/2 of triage\_kb.pl are missing.\<close>

definition kb_symptoms :: "(string \<times> string) list" where
  "kb_symptoms =
     [(''chest_pain'', ''Chest pain''),
      (''shortness_of_breath'', ''Shortness of breath''),
      (''left_arm_pain'', ''Left arm pain''),
      (''unresponsive'', ''Unresponsive''),
      (''severe_bleeding'', ''Severe bleeding''),
      (''seizure'', ''Seizure''),
      (''sudden_numbness'', ''Sudden numbness''),
      (''confusion'', ''Confusion''),
      (''severe_headache'', ''Severe headache''),
      (''high_fever'', ''High fever''),
      (''persistent_vomiting'', ''Persistent vomiting''),
      (''stiff_neck'', ''Stiff neck''),
      (''severe_abdominal_pain'', ''Severe abdominal pain''),
      (''fever'', ''Fever''),
      (''cough'', ''Cough''),
      (''headache'', ''Headache''),
      (''dizziness'', ''Dizziness''),
      (''body_ache'', ''Body ache''),
      (''joint_pain'', ''Joint pain''),
      (''swelling'', ''Swelling''),
      (''runny_nose'', ''Runny nose''),
      (''sore_throat'', ''Sore throat''),
      (''fatigue'', ''Fatigue'')]"

text \<open>Modelled from the spec: the rule table, one rule for each combination that section 8
  and the docstrings of test\_triage.py give a tier; the explanation texts are known only
  by the words the spec says they mention. The rules of triage\_kb.pl are missing.\<close>

definition kb_rules :: "rule list" where
  "kb_rules =
     [\<lparr>rule_level = ''critical'', rule_conditions = [''chest_pain'', ''shortness_of_breath''],
        rule_explanation = ''Chest pain with shortness of breath: possible cardiac or pulmonary emergency''\<rparr>,
      \<lparr>rule_level = ''critical'', rule_conditions = [''chest_pain'', ''left_arm_pain''],
        rule_explanation = ''Chest pain with left arm pain: possible myocardial infarction''\<rparr>,
      \<lparr>rule_level = ''critical'', rule_conditions = [''unresponsive''],
        rule_explanation = ''Unresponsive patient''\<rparr>,
      \<lparr>rule_level = ''critical'', rule_conditions = [''severe_bleeding''],
        rule_explanation = ''Severe bleeding''\<rparr>,
      \<lparr>rule_level = ''critical'', rule_conditions = [''seizure''],
        rule_explanation = ''Seizure''\<rparr>,
      \<lparr>rule_level = ''critical'', rule_conditions = [''sudden_numbness'', ''confusion'', ''severe_headache''],
        rule_explanation = ''Sudden numbness, confusion and severe headache: possible stroke''\<rparr>,
      \<lparr>rule_level = ''urgent'', rule_conditions = [''high_fever'', ''persistent_vomiting''],
        rule_explanation = ''High fever with persistent vomiting''\<rparr>,
      \<lparr>rule_level = ''urgent'', rule_conditions = [''high_fever'', ''stiff_neck''],
        rule_explanation = ''High fever with stiff neck: meningitis risk''\<rparr>,
      \<lparr>rule_level = ''urgent'', rule_conditions = [''severe_abdominal_pain''],
        rule_explanation = ''Severe abdominal pain''\<rparr>,
      \<lparr>rule_level = ''urgent'', rule_conditions = [''chest_pain''],
        rule_explanation = ''Chest pain alone''\<rparr>,
      \<lparr>rule_level = ''moderate'', rule_conditions = [''fever'', ''cough''],
        rule_explanation = ''Fever with cough''\<rparr>,
      \<lparr>rule_level = ''moderate'', rule_conditions = [''headache'', ''dizziness''],
        rule_explanation = ''Headache with dizziness''\<rparr>,
      \<lparr>rule_level = ''moderate'', rule_conditions = [''fever'', ''body_ache''],
        rule_explanation = ''Fever with body ache''\<rparr>,
      \<lparr>rule_level = ''moderate'', rule_conditions = [''joint_pain'', ''swelling''],
        rule_explanation = ''Joint pain with swelling''\<rparr>,
      \<lparr>rule_level = ''moderate'', rule_conditions = [''persistent_vomiting''],
        rule_explanation = ''Persistent vomiting alone''\<rparr>,
      \<lparr>rule_level = ''low'', rule_conditions = [''headache''],
        rule_explanation = ''Headache alone''\<rparr>,
      \<lparr>rule_level = ''low'', rule_conditions = [''runny_nose''],
        rule_explanation = ''Runny nose''\<rparr>,
      \<lparr>rule_level = ''low'', rule_conditions = [''sore_throat''],
        rule_explanation = ''Sore throat''\<rparr>,
      \<lparr>rule_level = ''low'', rule_conditions = [''fatigue''],
        rule_explanation = ''Fatigue''\<rparr>,
      \<lparr>rule_level = ''low'', rule_conditions = [''fever''],
        rule_explanation = ''Fever alone''\<rparr>,
      \<lparr>rule_level = ''low'', rule_conditions = [''cough''],
        rule_explanation = ''Cough alone''\<rparr>]"

text \<open>Modelled from the spec: the catalog that triage\_kb.pl holds, which is missing.\<close>

definition triage_kb :: catalog where
  "triage_kb = \<lparr>cat_symptoms = kb_symptoms, cat_rules = kb_rules\<rparr>"

text \<open>
  An installation: the module lives in \<open>/app\<close>, paths are already resolved, and the only
  file is \<open>/app/triage_kb.pl\<close>, holding \<open>triage_kb\<close>. \<open>fresh_db\<close> is the Prolog database
  before anything is consulted.
\<close>

definition installed :: env where
  "installed =
     \<lparr>module_dir = ''/app'',
      path_exists = (\<lambda>p. p = ''/app/triage_kb.pl''),
      path_resolve = (\<lambda>p. p)\<rparr>"

definition installed_files :: "string \<Rightarrow> catalog option" where
  "installed_files p = (if p = ''/app/triage_kb.pl'' then Some triage_kb else None)"

definition fresh_db :: kb_db where
  "fresh_db = \<lparr>db_catalog = \<lparr>cat_symptoms = [], cat_rules = []\<rparr>, db_symptoms = []\<rparr>"

text \<open>
  A tier has a fired rule, as the conjunctive goal of \<^verbatim>\<open>run_triage_all\<close> sees it: the
  goal \<^verbatim>\<open>fired_rules(L, Rules)\<close> has a solution whose rule list is not empty.
\<close>

definition tier_fired :: "('db, 'r) prolog \<Rightarrow> 'db \<Rightarrow> string \<Rightarrow> bool" where
  "tier_fired P db lvl =
     (case p_fired_rules P db lvl of
        Inl e \<Rightarrow> False
      | Inr sols \<Rightarrow> \<exists>Rules \<in> set sols. Rules \<noteq> [])"

text \<open>
  Two more surroundings: the installation with its knowledge base file removed, and a
  Prolog engine in which the predicate fired\_rules/2 raises an error when called, the
  other predicates being those of \<open>kb_prolog\<close>.
\<close>

definition uninstalled :: env where
  "uninstalled = installed\<lparr>path_exists := (\<lambda>p. False)\<rparr>"

definition broken_kb :: "(kb_db, rule) prolog" where
  "broken_kb =
     (kb_prolog installed_files)
       \<lparr>p_fired_rules := (\<lambda>db lvl. Inl (PrologError ''fired_rules/2: existence_error''))\<rparr>"

section \<open>Facts about the model\<close>

subsection \<open>The knowledge base as a Prolog engine\<close>

lemma kb_prolog_sel [simp]:
  "consult (kb_prolog f) = kb_consult f"
  "q_clear_symptoms (kb_prolog f) = kb_clear_symptoms"
  "q_add_symptom (kb_prolog f) = kb_add_symptom"
  "q_remove_symptom (kb_prolog f) = kb_remove_symptom"
  "q_current_symptoms (kb_prolog f) = kb_current_symptoms"
  "q_available_symptom (kb_prolog f) = kb_available_symptom"
  "q_triage (kb_prolog f) = kb_triage"
  "p_fired_rules (kb_prolog f) = kb_fired_rules"
  "p_extract_explanations (kb_prolog f) = kb_extract_explanations"
  by (simp_all add: kb_prolog_def)

lemma drain_simps [simp]:
  "drain (Inl e, db) = (Inl e, db)"
  "drain (Inr x, db) = (Inr (), db)"
  by (simp_all add: drain_def)

lemma fired_rules_reached: "fired_rules c ws t \<noteq> [] \<longleftrightarrow> reached c ws t"
  by (auto simp: fired_rules_def rules_for_tier_def reached_def fires_def filter_empty_conv)

lemma breakdown_head:
  "(case breakdown c ws of [] \<Rightarrow> ''none'' | x # _ \<Rightarrow> fst x) = highest_tier c ws"
  by (simp add: breakdown_def tiers_def highest_tier_def fired_rules_reached)

lemma run_triage_kb:
  "run_triage (kb_prolog f) db =
     (Inr (case breakdown (db_catalog db) (db_symptoms db) of
             [] \<Rightarrow> (''none'', [''Unable to determine triage level.''])
           | x # _ \<Rightarrow> x), db)"
  by (simp add: run_triage_def kb_triage_def split: list.splits)

lemma reached_cong: "set ws = set ws' \<Longrightarrow> reached c ws t = reached c ws' t"
  by (simp add: reached_def)

lemma highest_tier_cong: "set ws = set ws' \<Longrightarrow> highest_tier c ws = highest_tier c ws'"
  by (simp add: highest_tier_def reached_cong [of ws ws'])

lemma add_symptom_kb:
  "add_symptom (kb_prolog f) s db = (Inr u, db') \<Longrightarrow>
     db_catalog db' = db_catalog db \<and> set (db_symptoms db') = insert s (set (db_symptoms db))"
  by (auto simp: add_symptom_def kb_add_symptom_def split: if_splits)

lemma add_symptoms_loop_kb:
  "add_symptoms_loop (kb_prolog f) syms db = (Inr u, db') \<Longrightarrow>
     db_catalog db' = db_catalog db \<and> set (db_symptoms db') = set (db_symptoms db) \<union> set syms"
proof (induction syms arbitrary: db)
  case Nil
  then show ?case by simp
next
  case (Cons s syms)
  from Cons.prems obtain db1 where
    a: "add_symptom (kb_prolog f) s db = (Inr (), db1)" and
    l: "add_symptoms_loop (kb_prolog f) syms db1 = (Inr u, db')"
    by (auto split: prod.splits sum.splits)
  from add_symptom_kb [OF a] Cons.IH [OF l] show ?case by auto
qed

lemma init_kb:
  "TriageEngine_init (kb_prolog f) ev p db = (Inr u, db1) \<Longrightarrow>
     \<exists>c. f (replace_backslash (path_resolve ev p)) = Some c \<and> catalog_ok c \<and> path_exists ev p \<and>
         db1 = \<lparr>db_catalog = c, db_symptoms = []\<rparr>"
  by (auto simp: TriageEngine_init_def kb_consult_def kb_clear_symptoms_def Let_def
      split: if_splits option.splits)

lemma KB_PATH_installed: "KB_PATH installed = ''/app/triage_kb.pl''"
  unfolding KB_PATH_def installed_def by simp

lemma catalog_ok_triage_kb: "catalog_ok triage_kb"
  by code_simp

subsection \<open>The breakdown of run\_triage\_all\<close>

lemma conj_solutions_nonempty:
  "conj_solutions P db sols = Inr res \<Longrightarrow> res \<noteq> [] \<Longrightarrow> \<exists>Rules \<in> set sols. Rules \<noteq> []"
  by (induction sols arbitrary: res) (auto split: if_splits)

lemma q_fired_explanations_fired:
  "q_fired_explanations P db lvl = Inr (x # xs) \<Longrightarrow> tier_fired P db lvl"
  by (auto simp: q_fired_explanations_def tier_fired_def split: sum.splits
      dest: conj_solutions_nonempty)

lemma run_triage_all_loop_keys:
  "run_triage_all_loop P db lvls acc = Inr al \<Longrightarrow>
     \<exists>new. al = acc @ new \<and>
       map fst new = filter (\<lambda>lvl. \<exists>x xs. q_fired_explanations P db lvl = Inr (x # xs)) lvls"
proof (induction lvls arbitrary: acc)
  case Nil
  then show ?case by simp
next
  case (Cons lvl lvls)
  show ?case
  proof (cases "q_fired_explanations P db lvl")
    case (Inl e)
    with Cons.prems show ?thesis by simp
  next
    case (Inr results)
    show ?thesis
    proof (cases results)
      case Nil
      with Inr Cons.prems have "run_triage_all_loop P db lvls acc = Inr al" by simp
      from Cons.IH [OF this] Inr Nil show ?thesis by auto
    next
      case (Cons x xs)
      obtain R exps where x: "x = (R, exps)" by (cases x)
      with Inr Cons Cons.prems
      have "run_triage_all_loop P db lvls (acc @ [(lvl, exps)]) = Inr al" by simp
      from Cons.IH [OF this] obtain new where
        "al = (acc @ [(lvl, exps)]) @ new"
        "map fst new = filter (\<lambda>lvl. \<exists>x xs. q_fired_explanations P db lvl = Inr (x # xs)) lvls"
        by blast
      with Inr Cons show ?thesis by (intro exI [of _ "(lvl, exps) # new"]) simp
    qed
  qed
qed

lemma update_fresh: "k \<notin> fst ` set al \<Longrightarrow> AList.update k v al = al @ [(k, v)]"
  by (induction al) auto

lemma dict_of_pairs_distinct_aux:
  "distinct (map fst (d @ ps)) \<Longrightarrow> foldl (\<lambda>d (k, v). AList.update k v d) d ps = d @ ps"
proof (induction ps arbitrary: d)
  case Nil
  then show ?case by simp
next
  case (Cons p ps)
  obtain k v where p: "p = (k, v)" by (cases p)
  from Cons.prems p have "k \<notin> fst ` set d" by auto
  then have u: "AList.update k v d = d @ [(k, v)]" by (rule update_fresh)
  from Cons.prems p have "distinct (map fst ((d @ [(k, v)]) @ ps))" by simp
  from Cons.IH [OF this] u p show ?case by simp
qed

lemma dict_of_pairs_distinct: "distinct (map fst ps) \<Longrightarrow> dict_of_pairs ps = ps"
  using dict_of_pairs_distinct_aux [of "[]" ps] by (simp add: dict_of_pairs_def)

lemma run_triage_all_Inr:
  assumes "run_triage_all P db = Inr al"
  shows "subseq (map fst al) [''critical'', ''urgent'', ''moderate'', ''low'']"
    and "''none'' \<notin> set (map fst al)"
    and "list_all (\<lambda>(lvl, exps). tier_fired P db lvl) al"
    and "dict_of_pairs al = al"
proof -
  let ?Q = "\<lambda>lvl. \<exists>x xs. q_fired_explanations P db lvl = Inr (x # xs)"
  let ?T = "[''critical'', ''urgent'', ''moderate'', ''low'']"
  from assms run_triage_all_loop_keys [of P db ?T "[]" al]
  have k: "map fst al = filter ?Q ?T" by (simp add: run_triage_all_def)
  show "subseq (map fst al) ?T" unfolding k by (rule subseq_filter_left)
  have s: "set (map fst al) \<subseteq> set ?T" unfolding k by (rule filter_is_subset)
  then show "''none'' \<notin> set (map fst al)" by auto
  have "\<forall>lvl \<in> set (map fst al). tier_fired P db lvl"
    unfolding k by (auto dest: q_fired_explanations_fired)
  then show "list_all (\<lambda>(lvl, exps). tier_fired P db lvl) al"
    by (auto simp: list_all_iff)
  have "distinct (filter ?Q ?T)" by (rule distinct_filter) simp
  then have "distinct (map fst al)" by (simp only: k)
  then show "dict_of_pairs al = al" by (rule dict_of_pairs_distinct)
qed

subsection \<open>The steps of run\_triage\_for\_symptoms\<close>

lemma run_triage_for_symptoms_Inr:
  assumes "fst (run_triage_for_symptoms P ev syms db) = Inr r"
  shows "\<exists>db1 db2 db3.
           TriageEngine_init P ev (KB_PATH ev) db = (Inr (), db1) \<and>
           add_symptoms_loop P syms db1 = (Inr (), db2) \<and>
           run_triage P db2 = (Inr (res_level r, res_explanations r), db3) \<and>
           snd (run_triage_for_symptoms P ev syms db) = db3 \<and>
           res_all_levels r =
             (case run_triage_all P db3 of Inl e \<Rightarrow> [] | Inr al \<Rightarrow> dict_of_pairs al) \<and>
           res_symptoms r = syms"
  using assms
  by (auto simp: run_triage_for_symptoms_def Let_def split: prod.splits sum.splits)

lemma init_kb_eq:
  "TriageEngine_init (kb_prolog f) ev p db =
     (if \<not> path_exists ev p
      then (Inl (FileNotFoundError (''Knowledge base not found: '' @ p)), db)
      else (case f (replace_backslash (path_resolve ev p)) of
              None \<Rightarrow> (Inl (PrologError (''source_sink does not exist: '' @
                          replace_backslash (path_resolve ev p))), db)
            | Some c \<Rightarrow>
                (if catalog_ok c then (Inr (), \<lparr>db_catalog = c, db_symptoms = []\<rparr>)
                 else (Inl (ConfigurationError (''malformed catalog: '' @
                          replace_backslash (path_resolve ev p))), db))))"
  by (simp add: TriageEngine_init_def kb_consult_def kb_clear_symptoms_def Let_def
      split: option.splits)

lemma init_kb_indep:
  "(\<exists>e. fst (TriageEngine_init (kb_prolog f) ev p db) = Inl e \<and>
        fst (TriageEngine_init (kb_prolog f) ev p db') = Inl e) \<or>
   (\<exists>d. TriageEngine_init (kb_prolog f) ev p db = (Inr (), d) \<and>
        TriageEngine_init (kb_prolog f) ev p db' = (Inr (), d))"
  by (simp add: init_kb_eq split: option.splits)

lemma run_triage_for_symptoms_init_Inl:
  "fst (TriageEngine_init P ev (KB_PATH ev) db) = Inl e \<Longrightarrow>
     fst (run_triage_for_symptoms P ev syms db) = Inl e"
  by (cases "TriageEngine_init P ev (KB_PATH ev) db") (simp add: run_triage_for_symptoms_def)

lemma run_triage_for_symptoms_init_Inr:
  "TriageEngine_init P ev (KB_PATH ev) db = (Inr (), d) \<Longrightarrow>
   TriageEngine_init P ev (KB_PATH ev) db' = (Inr (), d) \<Longrightarrow>
     run_triage_for_symptoms P ev syms db = run_triage_for_symptoms P ev syms db'"
  by (simp add: run_triage_for_symptoms_def)

lemma run_kb_indep:
  "fst (run_triage_for_symptoms (kb_prolog f) ev syms db) =
   fst (run_triage_for_symptoms (kb_prolog f) ev syms db')"
proof -
  from init_kb_indep [of f ev "KB_PATH ev" db db'] show ?thesis
  proof (elim disjE exE conjE)
    fix e
    assume "fst (TriageEngine_init (kb_prolog f) ev (KB_PATH ev) db) = Inl e"
      and "fst (TriageEngine_init (kb_prolog f) ev (KB_PATH ev) db') = Inl e"
    then show ?thesis by (simp add: run_triage_for_symptoms_init_Inl)
  next
    fix d
    assume "TriageEngine_init (kb_prolog f) ev (KB_PATH ev) db = (Inr (), d)"
      and "TriageEngine_init (kb_prolog f) ev (KB_PATH ev) db' = (Inr (), d)"
    then show ?thesis by (simp add: run_triage_for_symptoms_init_Inr [of _ _ db d db'])
  qed
qed

lemma res_all_levels_keys:
  assumes "fst (run_triage_for_symptoms P ev syms db0) = Inr r"
  shows "subseq (map fst (res_all_levels r)) [''critical'', ''urgent'', ''moderate'', ''low''] \<and>
      ''none'' \<notin> set (map fst (res_all_levels r)) \<and>
      list_all (\<lambda>(lvl, exps). tier_fired P (snd (run_triage_for_symptoms P ev syms db0)) lvl)
        (res_all_levels r)"
proof -
  from run_triage_for_symptoms_Inr [OF assms] obtain db3 where
    s: "snd (run_triage_for_symptoms P ev syms db0) = db3" and
    a: "res_all_levels r =
          (case run_triage_all P db3 of Inl e \<Rightarrow> [] | Inr al \<Rightarrow> dict_of_pairs al)"
    by (elim exE conjE) (rule that)
  show ?thesis
  proof (cases "run_triage_all P db3")
    case (Inl e)
    with a have "res_all_levels r = []" by simp
    then show ?thesis by simp
  next
    case (Inr al)
    from run_triage_all_Inr(4) [OF Inr] a Inr have "res_all_levels r = al" by simp
    with run_triage_all_Inr(1,2,3) [OF Inr] s show ?thesis by (simp only: simp_thms)
  qed
qed

subsection \<open>Single operations on the knowledge base\<close>

lemma run_triage_query:
  "q_triage P db = (Inr sols, db') \<Longrightarrow>
     run_triage P db =
       (Inr (case sols of [] \<Rightarrow> (''none'', [''Unable to determine triage level.''])
                     | x # _ \<Rightarrow> x), db')"
  by (simp add: run_triage_def split: list.splits)

lemma no_rule_fires_breakdown:
  "\<not> (\<exists>r \<in> set (cat_rules c). fires ws r) \<Longrightarrow> breakdown c ws = []"
  by (simp add: breakdown_def fired_rules_def rules_for_tier_def filter_empty_conv)

lemma catalog_ok_empty_fires:
  "catalog_ok c \<Longrightarrow> r \<in> set (cat_rules c) \<Longrightarrow> \<not> fires [] r"
  by (auto simp: catalog_ok_def fires_def list_all_iff)

lemma add_symptom_kb_eq:
  "add_symptom (kb_prolog f) s db =
     (if s \<notin> set (map fst (cat_symptoms (db_catalog db))) then (Inl (UnknownSymptomError s), db)
      else if s \<in> set (db_symptoms db) then (Inr (), db)
      else (Inr (), db\<lparr>db_symptoms := db_symptoms db @ [s]\<rparr>))"
  by (simp add: add_symptom_def kb_add_symptom_def)

lemma get_current_symptoms_kb:
  "get_current_symptoms (kb_prolog f) db = (Inr (db_symptoms db), db)"
  by (simp add: get_current_symptoms_def kb_current_symptoms_def)

lemma distinct_count_list: "distinct xs \<Longrightarrow> x \<in> set xs \<Longrightarrow> count_list xs x = 1"
  by (induction xs) auto

section \<open>The claims\<close>

text \<open>
  C1. For every working symptom set, the level that \<open>run_triage\<close> returns (and the
  \<open>level\<close> field of \<open>run_triage_for_symptoms\<close>) is the highest tier, in the order
  critical, urgent, moderate, low, that has a rule whose condition set is a subset of the
  working set, and \<open>none\<close> if no rule fires. The tier selection is done by the knowledge
  base; \<open>highest_tier\<close> is the specification's wording of it.
\<close>

theorem run_triage_level_highest:
  "(\<exists>exps. run_triage (kb_prolog files) db =
      (Inr (highest_tier (db_catalog db) (db_symptoms db), exps), db)) \<and>
   (\<forall>r. fst (run_triage_for_symptoms (kb_prolog files) ev syms db0) = Inr r \<longrightarrow>
      (\<exists>c. files (replace_backslash (path_resolve ev (KB_PATH ev))) = Some c \<and>
           res_level r = highest_tier c syms))"
proof (intro conjI allI impI)
  show "\<exists>exps. run_triage (kb_prolog files) db =
      (Inr (highest_tier (db_catalog db) (db_symptoms db), exps), db)"
    using breakdown_head [of "db_catalog db" "db_symptoms db"]
    by (auto simp: run_triage_kb split: list.splits)
next
  fix r
  assume r: "fst (run_triage_for_symptoms (kb_prolog files) ev syms db0) = Inr r"
  then obtain db1 db2 where
    i: "TriageEngine_init (kb_prolog files) ev (KB_PATH ev) db0 = (Inr (), db1)" and
    a: "add_symptoms_loop (kb_prolog files) syms db1 = (Inr (), db2)" and
    t: "res_level r = fst (case breakdown (db_catalog db2) (db_symptoms db2) of
             [] \<Rightarrow> (''none'', [''Unable to determine triage level.''])
           | x # _ \<Rightarrow> x)"
    by (auto simp: run_triage_for_symptoms_def run_triage_kb Let_def
        split: prod.splits sum.splits)
  from init_kb [OF i] obtain c where
    c: "files (replace_backslash (path_resolve ev (KB_PATH ev))) = Some c"
    and db1: "db1 = \<lparr>db_catalog = c, db_symptoms = []\<rparr>" by blast
  from add_symptoms_loop_kb [OF a] db1
  have d2: "db_catalog db2 = c" "set (db_symptoms db2) = set syms" by auto
  have "res_level r = highest_tier c (db_symptoms db2)"
    using t breakdown_head [of c "db_symptoms db2"] d2(1) by (auto split: list.splits)
  with c d2(2) show "\<exists>c. files (replace_backslash (path_resolve ev (KB_PATH ev))) = Some c \<and>
           res_level r = highest_tier c syms"
    using highest_tier_cong by metis
qed

theorem run_triage_level_highest_witness:
  "fst (run_triage_for_symptoms (kb_prolog installed_files) installed [''chest_pain''] fresh_db) =
     Inr \<lparr>res_level = ''urgent'', res_explanations = [''Chest pain alone''],
          res_all_levels = [(''urgent'', [''Chest pain alone''])],
          res_symptoms = [''chest_pain'']\<rparr> \<and>
   highest_tier triage_kb [''chest_pain''] = ''urgent'' \<and>
   (\<exists>exps. run_triage (kb_prolog installed_files)
             \<lparr>db_catalog = triage_kb, db_symptoms = [''chest_pain'']\<rparr> =
      (Inr (''urgent'', exps), \<lparr>db_catalog = triage_kb, db_symptoms = [''chest_pain'']\<rparr>))"
proof -
  let ?R = "\<lparr>res_level = ''urgent'', res_explanations = [''Chest pain alone''],
          res_all_levels = [(''urgent'', [''Chest pain alone''])],
          res_symptoms = [''chest_pain'']\<rparr>"
  let ?db = "\<lparr>db_catalog = triage_kb, db_symptoms = [''chest_pain'']\<rparr>"
  have h: "fst (run_triage_for_symptoms (kb_prolog installed_files) installed [''chest_pain'']
             fresh_db) = Inr ?R"
    by code_simp
  have f: "installed_files (replace_backslash (path_resolve installed (KB_PATH installed))) =
             Some triage_kb"
    by code_simp
  from run_triage_level_highest [of installed_files ?db installed "[''chest_pain'']" fresh_db]
  have a: "\<exists>exps. run_triage (kb_prolog installed_files) ?db =
             (Inr (highest_tier triage_kb [''chest_pain''], exps), ?db)"
    and b: "\<exists>c. installed_files (replace_backslash (path_resolve installed (KB_PATH installed))) =
               Some c \<and> res_level ?R = highest_tier c [''chest_pain'']"
    using h by simp_all
  from b f have u: "highest_tier triage_kb [''chest_pain''] = ''urgent''" by simp
  from h u a show ?thesis by simp
qed

text \<open>
  C2. For every identifier outside the symptom vocabulary of the catalog, \<open>add_symptom\<close>
  fails with \<open>UnknownSymptomError\<close>, which reaches the caller, and the working set is
  unchanged. The error is raised by the knowledge base. \<open>add_symptom\<close> of triage.py has no
  check of its own: for any Prolog engine it raises exactly what the query raises, and
  returns silently whenever the query returns, with or without a solution.
\<close>

theorem add_unknown_symptom:
  "(\<forall>e db'. q_add_symptom P s db0 = (Inl e, db') \<longrightarrow> add_symptom P s db0 = (Inl e, db')) \<and>
   (\<forall>sols db'. q_add_symptom P s db0 = (Inr sols, db') \<longrightarrow>
      add_symptom P s db0 = (Inr (), db')) \<and>
   (s \<notin> set (map fst (cat_symptoms (db_catalog db))) \<longrightarrow>
      add_symptom (kb_prolog files) s db = (Inl (UnknownSymptomError s), db) \<and>
      get_current_symptoms (kb_prolog files) (snd (add_symptom (kb_prolog files) s db)) =
        get_current_symptoms (kb_prolog files) db)"
  by (simp add: add_symptom_def kb_add_symptom_def)

theorem add_unknown_symptom_witness:
  "''unicorn'' \<notin> set (map fst (cat_symptoms triage_kb)) \<and>
   q_add_symptom (kb_prolog installed_files) ''unicorn''
      \<lparr>db_catalog = triage_kb, db_symptoms = [''fever'']\<rparr> =
     (Inl (UnknownSymptomError ''unicorn''), \<lparr>db_catalog = triage_kb, db_symptoms = [''fever'']\<rparr>) \<and>
   add_symptom (kb_prolog installed_files) ''unicorn''
      \<lparr>db_catalog = triage_kb, db_symptoms = [''fever'']\<rparr> =
     (Inl (UnknownSymptomError ''unicorn''), \<lparr>db_catalog = triage_kb, db_symptoms = [''fever'']\<rparr>) \<and>
   q_add_symptom (kb_prolog installed_files) ''cough''
      \<lparr>db_catalog = triage_kb, db_symptoms = [''fever'']\<rparr> =
     (Inr [()], \<lparr>db_catalog = triage_kb, db_symptoms = [''fever'', ''cough'']\<rparr>) \<and>
   add_symptom (kb_prolog installed_files) ''cough''
      \<lparr>db_catalog = triage_kb, db_symptoms = [''fever'']\<rparr> =
     (Inr (), \<lparr>db_catalog = triage_kb, db_symptoms = [''fever'', ''cough'']\<rparr>)"
proof -
  let ?K = "kb_prolog installed_files"
  let ?db = "\<lparr>db_catalog = triage_kb, db_symptoms = [''fever'']\<rparr>"
  let ?db' = "\<lparr>db_catalog = triage_kb, db_symptoms = [''fever'', ''cough'']\<rparr>"
  have n: "''unicorn'' \<notin> set (map fst (cat_symptoms triage_kb))"
    by code_simp
  then have n': "''unicorn'' \<notin> set (map fst (cat_symptoms (db_catalog ?db)))" by simp
  have q: "q_add_symptom ?K ''unicorn'' ?db = (Inl (UnknownSymptomError ''unicorn''), ?db)"
    by code_simp
  have q': "q_add_symptom ?K ''cough'' ?db = (Inr [()], ?db')"
    by code_simp
  note t = add_unknown_symptom [of ?K "''unicorn''" ?db ?db installed_files]
  note u = add_unknown_symptom [of ?K "''cough''" ?db ?db installed_files]
  from t [THEN conjunct2, THEN conjunct2, rule_format, OF n', THEN conjunct1]
    t [THEN conjunct1, rule_format, OF q]
    u [THEN conjunct2, THEN conjunct1, rule_format, OF q'] n q q'
  show ?thesis by (simp only: simp_thms)
qed

text \<open>
  C3. \<open>add_symptom\<close> is idempotent: adding a symptom twice leaves the same database, and
  the same answer of \<open>get_current_symptoms\<close>, as adding it once; a working set without
  duplicates stays so, and a symptom of the vocabulary is then listed exactly once.
\<close>

theorem add_symptom_idempotent:
  "snd (add_symptom (kb_prolog files) x (snd (add_symptom (kb_prolog files) x db))) =
     snd (add_symptom (kb_prolog files) x db) \<and>
   fst (get_current_symptoms (kb_prolog files)
          (snd (add_symptom (kb_prolog files) x (snd (add_symptom (kb_prolog files) x db))))) =
   fst (get_current_symptoms (kb_prolog files) (snd (add_symptom (kb_prolog files) x db))) \<and>
   (distinct (db_symptoms db) \<longrightarrow>
      (\<exists>ws. fst (get_current_symptoms (kb_prolog files)
           (snd (add_symptom (kb_prolog files) x (snd (add_symptom (kb_prolog files) x db))))) =
           Inr ws \<and> distinct ws \<and>
         (x \<in> set (map fst (cat_symptoms (db_catalog db))) \<longrightarrow> count_list ws x = 1)))"
proof -
  let ?K = "kb_prolog files"
  let ?d1 = "snd (add_symptom ?K x db)"
  have c1: "db_catalog ?d1 = db_catalog db" by (simp add: add_symptom_kb_eq)
  have s1: "x \<in> set (map fst (cat_symptoms (db_catalog db))) \<Longrightarrow> x \<in> set (db_symptoms ?d1)"
    by (simp add: add_symptom_kb_eq)
  have d1: "distinct (db_symptoms db) \<Longrightarrow> distinct (db_symptoms ?d1)"
    by (simp add: add_symptom_kb_eq)
  have twice: "snd (add_symptom ?K x ?d1) = ?d1"
  proof (cases "x \<in> set (map fst (cat_symptoms (db_catalog db)))")
    case True
    from s1 [OF True] True c1 show ?thesis by (simp add: add_symptom_kb_eq [of files x ?d1])
  next
    case False
    with c1 show ?thesis by (simp add: add_symptom_kb_eq [of files x ?d1])
  qed
  show ?thesis
  proof (intro conjI impI)
    show "snd (add_symptom ?K x ?d1) = ?d1" by (rule twice)
    show "fst (get_current_symptoms ?K (snd (add_symptom ?K x ?d1))) =
          fst (get_current_symptoms ?K ?d1)" by (simp only: twice)
    assume dis: "distinct (db_symptoms db)"
    show "\<exists>ws. fst (get_current_symptoms ?K (snd (add_symptom ?K x ?d1))) = Inr ws \<and>
            distinct ws \<and>
            (x \<in> set (map fst (cat_symptoms (db_catalog db))) \<longrightarrow> count_list ws x = 1)"
    proof (intro exI conjI impI)
      show "fst (get_current_symptoms ?K (snd (add_symptom ?K x ?d1))) = Inr (db_symptoms ?d1)"
        by (simp only: twice get_current_symptoms_kb fst_conv)
      show "distinct (db_symptoms ?d1)" by (rule d1 [OF dis])
      assume "x \<in> set (map fst (cat_symptoms (db_catalog db)))"
      from distinct_count_list [OF d1 [OF dis] s1 [OF this]]
      show "count_list (db_symptoms ?d1) x = 1" .
    qed
  qed
qed

theorem add_symptom_idempotent_witness:
  "distinct (db_symptoms \<lparr>db_catalog = triage_kb, db_symptoms = []\<rparr>) \<and>
   ''fever'' \<in> set (map fst (cat_symptoms triage_kb)) \<and>
   fst (get_current_symptoms (kb_prolog installed_files)
     (snd (add_symptom (kb_prolog installed_files) ''fever''
        (snd (add_symptom (kb_prolog installed_files) ''fever''
           \<lparr>db_catalog = triage_kb, db_symptoms = []\<rparr>))))) = Inr [''fever''] \<and>
   count_list [''fever''] ''fever'' = 1"
proof -
  let ?K = "kb_prolog installed_files"
  let ?db = "\<lparr>db_catalog = triage_kb, db_symptoms = []\<rparr>"
  have d: "distinct (db_symptoms ?db)" by simp
  have m: "''fever'' \<in> set (map fst (cat_symptoms triage_kb))" by code_simp
  have g: "fst (get_current_symptoms ?K (snd (add_symptom ?K ''fever''
             (snd (add_symptom ?K ''fever'' ?db))))) = Inr [''fever'']"
    by code_simp
  from add_symptom_idempotent [of installed_files "''fever''" ?db,
      THEN conjunct2, THEN conjunct2, rule_format, OF d]
  obtain ws where w: "fst (get_current_symptoms ?K (snd (add_symptom ?K ''fever''
             (snd (add_symptom ?K ''fever'' ?db))))) = Inr ws"
    and c: "''fever'' \<in> set (map fst (cat_symptoms (db_catalog ?db))) \<longrightarrow>
              count_list ws ''fever'' = 1"
    by (elim exE conjE) (rule that)
  from w g have "ws = [''fever'']" by simp
  with c m have "count_list [''fever''] ''fever'' = 1" by simp
  with d m g show ?thesis by (simp only: simp_thms)
qed

text \<open>
  C4. The breakdown of \<open>run_triage_all\<close>, and with it the \<open>all_levels\<close> field of
  \<open>run_triage_for_symptoms\<close>, never has the key \<open>none\<close>, has a tier only if the goal
  found a non-empty list of fired rules for it, and lists its tiers in the order critical,
  urgent, moderate, low. This holds for every Prolog engine behind the interface.
\<close>

theorem breakdown_keys:
  "(\<forall>al. run_triage_all P db = Inr al \<longrightarrow>
      subseq (map fst al) [''critical'', ''urgent'', ''moderate'', ''low''] \<and>
      ''none'' \<notin> set (map fst al) \<and>
      list_all (\<lambda>(lvl, exps). tier_fired P db lvl) al) \<and>
   (\<forall>r. fst (run_triage_for_symptoms P ev syms db0) = Inr r \<longrightarrow>
      subseq (map fst (res_all_levels r)) [''critical'', ''urgent'', ''moderate'', ''low''] \<and>
      ''none'' \<notin> set (map fst (res_all_levels r)) \<and>
      list_all (\<lambda>(lvl, exps). tier_fired P (snd (run_triage_for_symptoms P ev syms db0)) lvl)
        (res_all_levels r))"
proof (rule conjI)
  show "\<forall>al. run_triage_all P db = Inr al \<longrightarrow>
      subseq (map fst al) [''critical'', ''urgent'', ''moderate'', ''low''] \<and>
      ''none'' \<notin> set (map fst al) \<and>
      list_all (\<lambda>(lvl, exps). tier_fired P db lvl) al"
  proof (intro allI impI)
    fix al assume h: "run_triage_all P db = Inr al"
    from run_triage_all_Inr(1) [OF h] run_triage_all_Inr(2) [OF h] run_triage_all_Inr(3) [OF h]
    show "subseq (map fst al) [''critical'', ''urgent'', ''moderate'', ''low''] \<and>
      ''none'' \<notin> set (map fst al) \<and>
      list_all (\<lambda>(lvl, exps). tier_fired P db lvl) al"
      by (intro conjI)
  qed
next
  show "\<forall>r. fst (run_triage_for_symptoms P ev syms db0) = Inr r \<longrightarrow>
      subseq (map fst (res_all_levels r)) [''critical'', ''urgent'', ''moderate'', ''low''] \<and>
      ''none'' \<notin> set (map fst (res_all_levels r)) \<and>
      list_all (\<lambda>(lvl, exps). tier_fired P (snd (run_triage_for_symptoms P ev syms db0)) lvl)
        (res_all_levels r)"
    by (intro allI impI) (rule res_all_levels_keys)
qed

theorem breakdown_keys_witness:
  "run_triage_all (kb_prolog installed_files)
      \<lparr>db_catalog = triage_kb, db_symptoms = [''chest_pain'', ''headache'']\<rparr> =
     Inr [(''urgent'', [''Chest pain alone'']), (''low'', [''Headache alone''])] \<and>
   subseq [''urgent'', ''low''] [''critical'', ''urgent'', ''moderate'', ''low''] \<and>
   tier_fired (kb_prolog installed_files)
      \<lparr>db_catalog = triage_kb, db_symptoms = [''chest_pain'', ''headache'']\<rparr> ''urgent'' \<and>
   tier_fired (kb_prolog installed_files)
      \<lparr>db_catalog = triage_kb, db_symptoms = [''chest_pain'', ''headache'']\<rparr> ''low''"
proof -
  let ?db = "\<lparr>db_catalog = triage_kb, db_symptoms = [''chest_pain'', ''headache'']\<rparr>"
  let ?al = "[(''urgent'', [''Chest pain alone'']), (''low'', [''Headache alone''])]"
  have h: "run_triage_all (kb_prolog installed_files) ?db = Inr ?al"
    by code_simp
  from breakdown_keys [of "kb_prolog installed_files" ?db, THEN conjunct1, rule_format, OF h]
  have "subseq (map fst ?al) [''critical'', ''urgent'', ''moderate'', ''low'']"
    and "list_all (\<lambda>(lvl, exps). tier_fired (kb_prolog installed_files) ?db lvl) ?al"
    by (rule conjunct1, rule conjunct2 [THEN conjunct2])
  with h show ?thesis by simp
qed

text \<open>
  C5. \<open>run_triage_for_symptoms\<close> constructs the engine, adds every given symptom, evaluates
  once and returns the four fields, \<open>symptoms\<close> being the input list unchanged; this for any
  Prolog engine. With the knowledge base its result does not depend on the state of the
  Prolog database it starts from, so two calls with the same input give the same result.
\<close>

theorem run_triage_for_symptoms_stateless:
  "(\<forall>r. fst (run_triage_for_symptoms P ev syms db) = Inr r \<longrightarrow>
      res_symptoms r = syms \<and>
      (\<exists>db1 db2 db3.
         TriageEngine_init P ev (KB_PATH ev) db = (Inr (), db1) \<and>
         add_symptoms_loop P syms db1 = (Inr (), db2) \<and>
         run_triage P db2 = (Inr (res_level r, res_explanations r), db3) \<and>
         res_all_levels r =
           (case run_triage_all P db3 of Inl e \<Rightarrow> [] | Inr al \<Rightarrow> dict_of_pairs al))) \<and>
   fst (run_triage_for_symptoms (kb_prolog files) kev ksyms kdb) =
   fst (run_triage_for_symptoms (kb_prolog files) kev ksyms kdb')"
proof (rule conjI)
  show "\<forall>r. fst (run_triage_for_symptoms P ev syms db) = Inr r \<longrightarrow>
      res_symptoms r = syms \<and>
      (\<exists>db1 db2 db3.
         TriageEngine_init P ev (KB_PATH ev) db = (Inr (), db1) \<and>
         add_symptoms_loop P syms db1 = (Inr (), db2) \<and>
         run_triage P db2 = (Inr (res_level r, res_explanations r), db3) \<and>
         res_all_levels r =
           (case run_triage_all P db3 of Inl e \<Rightarrow> [] | Inr al \<Rightarrow> dict_of_pairs al))"
  proof (intro allI impI)
    fix r
    assume "fst (run_triage_for_symptoms P ev syms db) = Inr r"
    from run_triage_for_symptoms_Inr [OF this] obtain db1 db2 db3 where
      "TriageEngine_init P ev (KB_PATH ev) db = (Inr (), db1)"
      "add_symptoms_loop P syms db1 = (Inr (), db2)"
      "run_triage P db2 = (Inr (res_level r, res_explanations r), db3)"
      "res_all_levels r =
         (case run_triage_all P db3 of Inl e \<Rightarrow> [] | Inr al \<Rightarrow> dict_of_pairs al)"
      "res_symptoms r = syms"
      by (elim exE conjE) (rule that)
    then show "res_symptoms r = syms \<and>
      (\<exists>db1 db2 db3.
         TriageEngine_init P ev (KB_PATH ev) db = (Inr (), db1) \<and>
         add_symptoms_loop P syms db1 = (Inr (), db2) \<and>
         run_triage P db2 = (Inr (res_level r, res_explanations r), db3) \<and>
         res_all_levels r =
           (case run_triage_all P db3 of Inl e \<Rightarrow> [] | Inr al \<Rightarrow> dict_of_pairs al))"
      by blast
  qed
next
  show "fst (run_triage_for_symptoms (kb_prolog files) kev ksyms kdb) =
   fst (run_triage_for_symptoms (kb_prolog files) kev ksyms kdb')"
    by (rule run_kb_indep)
qed

theorem run_triage_for_symptoms_stateless_witness:
  "fst (run_triage_for_symptoms (kb_prolog installed_files) installed
          [''fever'', ''cough'', ''fever''] fresh_db) =
     Inr \<lparr>res_level = ''moderate'', res_explanations = [''Fever with cough''],
          res_all_levels = [(''moderate'', [''Fever with cough'']),
                            (''low'', [''Fever alone'', ''Cough alone''])],
          res_symptoms = [''fever'', ''cough'', ''fever'']\<rparr> \<and>
   fst (run_triage_for_symptoms (kb_prolog installed_files) installed
          [''fever'', ''cough'', ''fever'']
          (snd (run_triage_for_symptoms (kb_prolog installed_files) installed
                  [''fever'', ''cough'', ''fever''] fresh_db))) =
   fst (run_triage_for_symptoms (kb_prolog installed_files) installed
          [''fever'', ''cough'', ''fever''] fresh_db)"
proof -
  let ?K = "kb_prolog installed_files"
  let ?s = "[''fever'', ''cough'', ''fever'']"
  let ?R = "\<lparr>res_level = ''moderate'', res_explanations = [''Fever with cough''],
          res_all_levels = [(''moderate'', [''Fever with cough'']),
                            (''low'', [''Fever alone'', ''Cough alone''])],
          res_symptoms = ?s\<rparr>"
  have h: "fst (run_triage_for_symptoms ?K installed ?s fresh_db) = Inr ?R"
    by code_simp
  note t = run_triage_for_symptoms_stateless [of ?K installed ?s fresh_db installed_files
      installed ?s "snd (run_triage_for_symptoms ?K installed ?s fresh_db)" fresh_db]
  from t [THEN conjunct1, rule_format, OF h] have e: "res_symptoms ?R = ?s"
    by (rule conjunct1)
  from t [THEN conjunct2] h e show ?thesis by (simp only: simp_thms)
qed

text \<open>
  C6. Evaluation is total. For any Prolog engine, \<open>run_triage\<close> returns whenever its query
  does, leaves the database as the query left it, and returns \<open>none\<close> with the message
  \<open>Unable to determine triage level.\<close> when the query has no solution. With the knowledge
  base the query never raises and never changes the database, and it has no solution when
  no rule fires, in particular for the empty working set of a well-formed catalog.
\<close>

theorem run_triage_total:
  "(\<forall>sols db'. q_triage P db = (Inr sols, db') \<longrightarrow>
      (\<exists>r. run_triage P db = (Inr r, db')) \<and>
      (sols = [] \<longrightarrow>
         run_triage P db = (Inr (''none'', [''Unable to determine triage level.'']), db'))) \<and>
   (\<exists>r. run_triage (kb_prolog files) kdb = (Inr r, kdb)) \<and>
   (\<not> (\<exists>r \<in> set (cat_rules (db_catalog kdb)). fires (db_symptoms kdb) r) \<longrightarrow>
      run_triage (kb_prolog files) kdb =
        (Inr (''none'', [''Unable to determine triage level.'']), kdb)) \<and>
   (catalog_ok (db_catalog kdb) \<and> db_symptoms kdb = [] \<longrightarrow>
      run_triage (kb_prolog files) kdb =
        (Inr (''none'', [''Unable to determine triage level.'']), kdb))"
proof (intro conjI allI impI)
  fix sols db'
  assume q: "q_triage P db = (Inr sols, db')"
  from run_triage_query [OF q] show "\<exists>r. run_triage P db = (Inr r, db')" by (rule exI)
  assume "sols = []"
  with run_triage_query [OF q]
  show "run_triage P db = (Inr (''none'', [''Unable to determine triage level.'']), db')"
    by simp
next
  show "\<exists>r. run_triage (kb_prolog files) kdb = (Inr r, kdb)"
    unfolding run_triage_kb by (rule exI) (rule refl)
next
  assume "\<not> (\<exists>r \<in> set (cat_rules (db_catalog kdb)). fires (db_symptoms kdb) r)"
  from no_rule_fires_breakdown [OF this]
  show "run_triage (kb_prolog files) kdb =
        (Inr (''none'', [''Unable to determine triage level.'']), kdb)"
    by (simp add: run_triage_kb)
next
  assume a: "catalog_ok (db_catalog kdb) \<and> db_symptoms kdb = []"
  then have "\<not> (\<exists>r \<in> set (cat_rules (db_catalog kdb)). fires (db_symptoms kdb) r)"
    using catalog_ok_empty_fires [of "db_catalog kdb"] by auto
  from no_rule_fires_breakdown [OF this]
  show "run_triage (kb_prolog files) kdb =
        (Inr (''none'', [''Unable to determine triage level.'']), kdb)"
    by (simp add: run_triage_kb)
qed

theorem run_triage_total_witness:
  "catalog_ok triage_kb \<and>
   q_triage (kb_prolog installed_files) \<lparr>db_catalog = triage_kb, db_symptoms = []\<rparr> =
     (Inr [], \<lparr>db_catalog = triage_kb, db_symptoms = []\<rparr>) \<and>
   run_triage (kb_prolog installed_files) \<lparr>db_catalog = triage_kb, db_symptoms = []\<rparr> =
     (Inr (''none'', [''Unable to determine triage level.'']),
      \<lparr>db_catalog = triage_kb, db_symptoms = []\<rparr>)"
proof -
  let ?db = "\<lparr>db_catalog = triage_kb, db_symptoms = []\<rparr>"
  have c: "catalog_ok (db_catalog ?db) \<and> db_symptoms ?db = []"
    by (simp add: catalog_ok_triage_kb)
  have q: "q_triage (kb_prolog installed_files) ?db = (Inr [], ?db)"
    by code_simp
  note t = run_triage_total [of "kb_prolog installed_files" ?db installed_files ?db]
  from t [THEN conjunct2, THEN conjunct2, THEN conjunct2, rule_format, OF c]
    t [THEN conjunct1, rule_format, OF q] q catalog_ok_triage_kb
  show ?thesis by (simp only: simp_thms)
qed

text \<open>
  C7. If the knowledge base file does not exist, \<^verbatim>\<open>TriageEngine.__init__\<close> raises
  \<open>FileNotFoundError\<close> and the Prolog database is as before (nothing was consulted,
  whatever the engine), and \<open>run_interactive\<close> prints the error and leaves through
  \<^verbatim>\<open>sys.exit(1)\<close>.
\<close>

theorem missing_knowledge_base:
  "(\<not> path_exists ev kb_path \<longrightarrow>
      TriageEngine_init P ev kb_path db =
        (Inl (FileNotFoundError (''Knowledge base not found: '' @ kb_path)), db)) \<and>
   (\<not> path_exists ev (KB_PATH ev) \<longrightarrow>
      run_interactive_start P ev db =
        (([Banner, Disclaimer, Error_line (''Knowledge base not found: '' @ KB_PATH ev)],
          Sys_exit 1), db) \<and>
      fst (run_triage_for_symptoms P ev syms db) =
        Inl (FileNotFoundError (''Knowledge base not found: '' @ KB_PATH ev)))"
proof (intro conjI impI)
  assume "\<not> path_exists ev kb_path"
  then show "TriageEngine_init P ev kb_path db =
        (Inl (FileNotFoundError (''Knowledge base not found: '' @ kb_path)), db)"
    by (simp add: TriageEngine_init_def)
next
  assume "\<not> path_exists ev (KB_PATH ev)"
  then have i: "TriageEngine_init P ev (KB_PATH ev) db =
        (Inl (FileNotFoundError (''Knowledge base not found: '' @ KB_PATH ev)), db)"
    by (simp add: TriageEngine_init_def)
  show "run_interactive_start P ev db =
        (([Banner, Disclaimer, Error_line (''Knowledge base not found: '' @ KB_PATH ev)],
          Sys_exit 1), db)"
    by (simp add: run_interactive_start_def i)
  show "fst (run_triage_for_symptoms P ev syms db) =
        Inl (FileNotFoundError (''Knowledge base not found: '' @ KB_PATH ev))"
    by (simp add: run_triage_for_symptoms_def i)
qed

theorem missing_knowledge_base_witness:
  "\<not> path_exists uninstalled (KB_PATH uninstalled) \<and>
   TriageEngine_init (kb_prolog installed_files) uninstalled (KB_PATH uninstalled) fresh_db =
     (Inl (FileNotFoundError ''Knowledge base not found: /app/triage_kb.pl''), fresh_db) \<and>
   run_interactive_start (kb_prolog installed_files) uninstalled fresh_db =
     (([Banner, Disclaimer, Error_line ''Knowledge base not found: /app/triage_kb.pl''],
       Sys_exit 1), fresh_db)"
proof -
  have k: "KB_PATH uninstalled = ''/app/triage_kb.pl''"
    unfolding KB_PATH_def uninstalled_def installed_def by simp
  have n: "\<not> path_exists uninstalled (KB_PATH uninstalled)"
    unfolding uninstalled_def by simp
  note t = missing_knowledge_base [of uninstalled "KB_PATH uninstalled"
      "kb_prolog installed_files" fresh_db "[]"]
  from t [THEN conjunct1, rule_format, OF n]
    t [THEN conjunct2, rule_format, OF n, THEN conjunct1] n
  show ?thesis unfolding k by simp
qed

text \<open>
  C8. Removing an identifier that is not in the working set raises no error and leaves the
  database, hence the working set, unchanged. For any Prolog engine \<open>remove_symptom\<close>
  returns silently whenever its query returns.
\<close>

theorem remove_absent_symptom:
  "(\<forall>sols db'. q_remove_symptom P s db0 = (Inr sols, db') \<longrightarrow>
      remove_symptom P s db0 = (Inr (), db')) \<and>
   (s \<notin> set (db_symptoms db) \<longrightarrow> remove_symptom (kb_prolog files) s db = (Inr (), db))"
  by (simp add: remove_symptom_def kb_remove_symptom_def)

theorem remove_absent_symptom_witness:
  "''cough'' \<notin> set (db_symptoms \<lparr>db_catalog = triage_kb, db_symptoms = [''fever'']\<rparr>) \<and>
   q_remove_symptom (kb_prolog installed_files) ''cough''
      \<lparr>db_catalog = triage_kb, db_symptoms = [''fever'']\<rparr> =
     (Inr [()], \<lparr>db_catalog = triage_kb, db_symptoms = [''fever'']\<rparr>) \<and>
   remove_symptom (kb_prolog installed_files) ''cough''
      \<lparr>db_catalog = triage_kb, db_symptoms = [''fever'']\<rparr> =
     (Inr (), \<lparr>db_catalog = triage_kb, db_symptoms = [''fever'']\<rparr>)"
proof -
  let ?K = "kb_prolog installed_files"
  let ?db = "\<lparr>db_catalog = triage_kb, db_symptoms = [''fever'']\<rparr>"
  have n: "''cough'' \<notin> set (db_symptoms ?db)" by simp
  have q: "q_remove_symptom ?K ''cough'' ?db = (Inr [()], ?db)" by code_simp
  note t = remove_absent_symptom [of ?K "''cough''" ?db ?db installed_files]
  from t [THEN conjunct2, rule_format, OF n] t [THEN conjunct1, rule_format, OF q] n q
  show ?thesis by (simp only: simp_thms)
qed

text \<open>
  C9. With the rule table, the symptom list \<open>chest_pain\<close> alone gives the level urgent and
  \<open>chest_pain, shortness_of_breath\<close> gives critical; no critical rule fires on
  \<open>chest_pain\<close> alone, and in general a rule is among the fired rules of a tier exactly when
  it is a rule of that tier whose whole condition set lies in the working set.
\<close>

theorem chest_pain_levels:
  "map_sum id res_level
     (fst (run_triage_for_symptoms (kb_prolog installed_files) installed
             [''chest_pain''] db)) = Inr ''urgent'' \<and>
   map_sum id res_level
     (fst (run_triage_for_symptoms (kb_prolog installed_files) installed
             [''chest_pain'', ''shortness_of_breath''] db)) = Inr ''critical'' \<and>
   fired_rules triage_kb [''chest_pain''] ''critical'' = [] \<and>
   (r \<in> set (fired_rules c ws t) \<longleftrightarrow>
      r \<in> set (cat_rules c) \<and> rule_level r = t \<and> set (rule_conditions r) \<subseteq> set ws)"
proof (intro conjI)
  have "map_sum id res_level
     (fst (run_triage_for_symptoms (kb_prolog installed_files) installed
             [''chest_pain''] fresh_db)) = Inr ''urgent''"
    by code_simp
  then show "map_sum id res_level
     (fst (run_triage_for_symptoms (kb_prolog installed_files) installed
             [''chest_pain''] db)) = Inr ''urgent''"
    by (simp only: run_kb_indep [of installed_files installed "[''chest_pain'']" db fresh_db])
next
  have "map_sum id res_level
     (fst (run_triage_for_symptoms (kb_prolog installed_files) installed
             [''chest_pain'', ''shortness_of_breath''] fresh_db)) = Inr ''critical''"
    by code_simp
  then show "map_sum id res_level
     (fst (run_triage_for_symptoms (kb_prolog installed_files) installed
             [''chest_pain'', ''shortness_of_breath''] db)) = Inr ''critical''"
    by (simp only: run_kb_indep [of installed_files installed
          "[''chest_pain'', ''shortness_of_breath'']" db fresh_db])
next
  show "fired_rules triage_kb [''chest_pain''] ''critical'' = []"
    by code_simp
next
  show "r \<in> set (fired_rules c ws t) \<longleftrightarrow>
      r \<in> set (cat_rules c) \<and> rule_level r = t \<and> set (rule_conditions r) \<subseteq> set ws"
    by (auto simp: fired_rules_def rules_for_tier_def fires_def)
qed

theorem chest_pain_levels_witness:
  "map_sum id res_level
     (fst (run_triage_for_symptoms (kb_prolog installed_files) installed
             [''chest_pain''] fresh_db)) = Inr ''urgent'' \<and>
   map_sum id res_level
     (fst (run_triage_for_symptoms (kb_prolog installed_files) installed
             [''chest_pain'', ''shortness_of_breath''] fresh_db)) = Inr ''critical''"
  using chest_pain_levels [of fresh_db, THEN conjunct1]
    chest_pain_levels [of fresh_db, THEN conjunct2, THEN conjunct1]
  by (rule conjI)

text \<open>
  C10. If \<open>run_triage_all\<close> raises, \<open>run_triage_for_symptoms\<close> does not: it returns its
  result with an empty \<open>all_levels\<close>, for any Prolog engine. The witness is an engine whose
  fired\_rules/2 raises: the level is critical and \<open>all_levels\<close> is empty.
\<close>

theorem breakdown_error_swallowed:
  "TriageEngine_init P ev (KB_PATH ev) db = (Inr u, db1) \<Longrightarrow>
   add_symptoms_loop P syms db1 = (Inr v, db2) \<Longrightarrow>
   run_triage P db2 = (Inr (lvl, exps), db3) \<Longrightarrow>
   run_triage_all P db3 = Inl e \<Longrightarrow>
     run_triage_for_symptoms P ev syms db =
       (Inr \<lparr>res_level = lvl, res_explanations = exps, res_all_levels = [],
             res_symptoms = syms\<rparr>, db3)"
  by (simp add: run_triage_for_symptoms_def)

theorem breakdown_error_swallowed_witness:
  "run_triage_all broken_kb \<lparr>db_catalog = triage_kb, db_symptoms = [''seizure'']\<rparr> =
     Inl (PrologError ''fired_rules/2: existence_error'') \<and>
   run_triage_for_symptoms broken_kb installed [''seizure''] fresh_db =
     (Inr \<lparr>res_level = ''critical'', res_explanations = [''Seizure''], res_all_levels = [],
           res_symptoms = [''seizure'']\<rparr>,
      \<lparr>db_catalog = triage_kb, db_symptoms = [''seizure'']\<rparr>)"
proof -
  let ?d0 = "\<lparr>db_catalog = triage_kb, db_symptoms = []\<rparr>"
  let ?d1 = "\<lparr>db_catalog = triage_kb, db_symptoms = [''seizure'']\<rparr>"
  have i: "TriageEngine_init broken_kb installed (KB_PATH installed) fresh_db = (Inr (), ?d0)"
    by code_simp
  have a: "add_symptoms_loop broken_kb [''seizure''] ?d0 = (Inr (), ?d1)"
    by code_simp
  have t: "run_triage broken_kb ?d1 = (Inr (''critical'', [''Seizure'']), ?d1)"
    by code_simp
  have b: "run_triage_all broken_kb ?d1 = Inl (PrologError ''fired_rules/2: existence_error'')"
    by code_simp
  from breakdown_error_swallowed [OF i a t b] b show ?thesis by (simp only: simp_thms)
qed

end
